theory Spec2Isabelle
  imports Main "HOL-Library.Word" "HOL-Library.Monad_Syntax"
begin

section \<open>LLAS: a header-only reader of LAS point-cloud files\<close>

text \<open>
  This theory embeds the decoding pipeline of \<^verbatim>\<open>include/llas.hpp\<close> (the variant that
  loads the whole file into \<^verbatim>\<open>std::vector<char> fileBytes\<close> and decodes it with
  \<^verbatim>\<open>std::memcpy\<close>): \<^verbatim>\<open>PublicHeader::readPublicHeader\<close>,
  \<^verbatim>\<open>VariableLengthRecord::readVariableLengthRecord\<close>,
  \<^verbatim>\<open>PointDataRecord::readPointDataRecord\<close>,
  \<^verbatim>\<open>ExtendedVariableLengthRecord::readExtendedVariableLengthRecord\<close> and the top-level
  \<^verbatim>\<open>read\<close>. The accessors \<^verbatim>\<open>getPointCoords\<close> and \<^verbatim>\<open>getPointColors\<close> of
  \<^verbatim>\<open>LasData\<close> compute in \<^verbatim>\<open>double\<close> arithmetic and are not embedded.

  Conventions of the embedding.
  \<^item> The loaded file is a list of bytes. Offsets (\<^verbatim>\<open>size_t\<close>, \<^verbatim>\<open>std::streamsize\<close>) are
    natural numbers; where the source converts an offset to a narrower unsigned type the
    reduction modulo the width is written out.
  \<^item> The source performs no bounds check before any \<^verbatim>\<open>memcpy\<close> or iterator range.
    An access that leaves the buffer is undefined behaviour in C++; the embedding makes it
    an explicit outcome: every reader returns an \<open>option\<close>, and \<open>None\<close> means
    \<^emph>\<open>the source would read outside the loaded buffer here\<close>. It is not a value the
    source returns.
  \<^item> Integer fields are machine words of the declared width; \<^verbatim>\<open>memcpy\<close> into an integer
    is little-endian decoding (the byte order the source relies on).
  \<^item> A \<^verbatim>\<open>double\<close> field filled by \<^verbatim>\<open>memcpy\<close> is kept as its 64-bit pattern.
  \<^item> The messages written by \<^verbatim>\<open>_LLAS_logError\<close> are collected in a list of diagnostics
    (the info and debug messages depend on build flags and are left out).
  \<^item> The vectors of the source are lists; \<^verbatim>\<open>resize\<close> to a count declared by the file
    is taken to succeed whatever the count.
\<close>

subsection \<open>Bytes and the unchecked reads of the source\<close>

type_synonym byte = "8 word"

text \<open>
  The block \<^verbatim>\<open>{ std::memcpy(&field, fileBytes.data() + offset, nBytes); offset += nBytes; }\<close>
  that the source repeats for every field: the bytes copied and the advanced offset.
\<close>

definition readBytes :: "byte list \<Rightarrow> nat \<Rightarrow> nat \<Rightarrow> (byte list \<times> nat) option" where
  "readBytes fileBytes offset nBytes =
     (if offset + nBytes \<le> length fileBytes
      then Some (take nBytes (drop offset fileBytes), offset + nBytes)
      else None)"

text \<open>
  The value an unsigned integer object of type \<open>'a word\<close> holds after \<^verbatim>\<open>memcpy\<close> of
  the given bytes on a little-endian machine. When more bytes are copied than the object
  has (the source does this for two fields), the object keeps the low-order ones.
\<close>

definition le_word :: "byte list \<Rightarrow> 'a::len word" where
  "le_word bs = word_of_nat (horner_sum unat 256 bs)"

definition readWord :: "byte list \<Rightarrow> nat \<Rightarrow> nat \<Rightarrow> ('a::len word \<times> nat) option" where
  "readWord fileBytes offset nBytes =
     map_option (\<lambda>(bs, offset'). (le_word bs, offset')) (readBytes fileBytes offset nBytes)"

text \<open>An array of \<open>k\<close> integers of \<open>w\<close> bytes each, filled by one \<^verbatim>\<open>memcpy\<close>.\<close>

definition le_words :: "nat \<Rightarrow> nat \<Rightarrow> byte list \<Rightarrow> 'a::len word list" where
  "le_words k w bs = map (\<lambda>i. le_word (take w (drop (i * w) bs))) [0..<k]"

definition readWords ::
    "byte list \<Rightarrow> nat \<Rightarrow> nat \<Rightarrow> nat \<Rightarrow> ('a::len word list \<times> nat) option" where
  "readWords fileBytes offset k w =
     map_option (\<lambda>(bs, offset'). (le_words k w bs, offset')) (readBytes fileBytes offset (k * w))"

text \<open>
  A \<^verbatim>\<open>char\<close> array of \<open>n + 1\<close> elements, value-initialised to zero, after \<^verbatim>\<open>memcpy\<close> of
  \<open>n\<close> bytes: the terminating zero stays.
\<close>

definition charArray :: "byte list \<Rightarrow> byte list" where
  "charArray bs = bs @ [0]"

subsection \<open>The public header\<close>

record PublicHeader =
  fileSignature :: "byte list"
  fileSourceID :: "16 word"
  globalEncoding :: "16 word"
  projectID1 :: "32 word"
  projectID2 :: "16 word"
  projectID3 :: "16 word"
  projectID4 :: "byte list"
  versionMajor :: "8 word"
  versionMinor :: "8 word"
  systemIdentifier :: "byte list"
  generatingSoftware :: "byte list"
  fileCreationDayOfYear :: "16 word"
  fileCreationYear :: "16 word"
  headerSize :: "16 word"
  offsetToPointData :: "32 word"
  numOfVariableLengthRecords :: "32 word"
  pointDataRecordFormat :: "8 word"
  pointDataRecordLength :: "16 word"
  legacyNumOfPointRecords :: "32 word"
  legacyNumOfPointByReturn :: "32 word list"
  xScaleFactor :: "64 word"
  yScaleFactor :: "64 word"
  zScaleFactor :: "64 word"
  xOffset :: "64 word"
  yOffset :: "64 word"
  zOffset :: "64 word"
  maxX :: "64 word"
  maxY :: "64 word"
  maxZ :: "64 word"
  minX :: "64 word"
  minY :: "64 word"
  minZ :: "64 word"
  startOfWaveformDataPacketRecord :: "64 word"
  startOfFirstExtendedVariableLengthRecord :: "64 word"
  numOfExtendedVariableLengthRecords :: "32 word"
  numOfPointRecords :: "64 word"
  numOfPointsByReturn :: "64 word list"
  hasStartOfWaveformDataPacketRecord :: bool
  hasStartOfFirstExtendedVariableLengthRecord :: bool
  hasNumOfExtendedVariableLengthRecords :: bool
  hasNumOfPointRecords :: bool
  hasNumOfPointsByReturn :: bool

text \<open>
  \<^verbatim>\<open>PublicHeader::readPublicHeader\<close>. The fields are read in the order of the source
  (which reads the bounds as max X, min X, max Y, min Y, max Z, min Z). The five flags are
  set right after the minor version is read; a gated field that is not read keeps the zero
  of the value-initialising constructor and leaves the offset where it was. The function
  of the source returns the header; the final offset is returned with it here so that
  statements about the cursor can be made.
\<close>

definition readPublicHeader :: "byte list \<Rightarrow> (PublicHeader \<times> nat) option" where
  "readPublicHeader fileBytes = do {
     (fileSignature', o1) \<leftarrow> readBytes fileBytes 0 4;
     (fileSourceID', o2) \<leftarrow> readWord fileBytes o1 2;
     (globalEncoding', o3) \<leftarrow> readWord fileBytes o2 2;
     (projectID1', o4) \<leftarrow> readWord fileBytes o3 4;
     (projectID2', o5) \<leftarrow> readWord fileBytes o4 2;
     (projectID3', o6) \<leftarrow> readWord fileBytes o5 2;
     (projectID4', o7) \<leftarrow> readBytes fileBytes o6 8;
     (versionMajor', o8) \<leftarrow> readWord fileBytes o7 1;
     (versionMinor', o9) \<leftarrow> readWord fileBytes o8 1;
     let hasWaveform = ((3 :: 8 word) \<le> versionMinor');
     let hasV14 = ((4 :: 8 word) \<le> versionMinor');
     (systemIdentifier', o10) \<leftarrow> readBytes fileBytes o9 32;
     (generatingSoftware', o11) \<leftarrow> readBytes fileBytes o10 32;
     (fileCreationDayOfYear', o12) \<leftarrow> readWord fileBytes o11 2;
     (fileCreationYear', o13) \<leftarrow> readWord fileBytes o12 2;
     (headerSize', o14) \<leftarrow> readWord fileBytes o13 2;
     (offsetToPointData', o15) \<leftarrow> readWord fileBytes o14 4;
     (numOfVariableLengthRecords', o16) \<leftarrow> readWord fileBytes o15 4;
     (pointDataRecordFormat', o17) \<leftarrow> readWord fileBytes o16 1;
     (pointDataRecordLength', o18) \<leftarrow> readWord fileBytes o17 2;
     (legacyNumOfPointRecords', o19) \<leftarrow> readWord fileBytes o18 4;
     (legacyNumOfPointByReturn', o20) \<leftarrow> readWords fileBytes o19 5 4;
     (xScaleFactor', o21) \<leftarrow> readWord fileBytes o20 8;
     (yScaleFactor', o22) \<leftarrow> readWord fileBytes o21 8;
     (zScaleFactor', o23) \<leftarrow> readWord fileBytes o22 8;
     (xOffset', o24) \<leftarrow> readWord fileBytes o23 8;
     (yOffset', o25) \<leftarrow> readWord fileBytes o24 8;
     (zOffset', o26) \<leftarrow> readWord fileBytes o25 8;
     (maxX', o27) \<leftarrow> readWord fileBytes o26 8;
     (minX', o28) \<leftarrow> readWord fileBytes o27 8;
     (maxY', o29) \<leftarrow> readWord fileBytes o28 8;
     (minY', o30) \<leftarrow> readWord fileBytes o29 8;
     (maxZ', o31) \<leftarrow> readWord fileBytes o30 8;
     (minZ', o32) \<leftarrow> readWord fileBytes o31 8;
     (startOfWaveformDataPacketRecord', o33) \<leftarrow>
        (if hasWaveform then readWord fileBytes o32 8 else Some (0, o32));
     (startOfFirstExtendedVariableLengthRecord', o34) \<leftarrow>
        (if hasV14 then readWord fileBytes o33 8 else Some (0, o33));
     (numOfExtendedVariableLengthRecords', o35) \<leftarrow>
        (if hasV14 then readWord fileBytes o34 4 else Some (0, o34));
     (numOfPointRecords', o36) \<leftarrow>
        (if hasV14 then readWord fileBytes o35 8 else Some (0, o35));
     (numOfPointsByReturn', o37) \<leftarrow>
        (if hasV14 then readWords fileBytes o36 15 8 else Some (replicate 15 0, o36));
     Some (\<lparr> fileSignature = charArray fileSignature',
             fileSourceID = fileSourceID',
             globalEncoding = globalEncoding',
             projectID1 = projectID1',
             projectID2 = projectID2',
             projectID3 = projectID3',
             projectID4 = charArray projectID4',
             versionMajor = versionMajor',
             versionMinor = versionMinor',
             systemIdentifier = charArray systemIdentifier',
             generatingSoftware = charArray generatingSoftware',
             fileCreationDayOfYear = fileCreationDayOfYear',
             fileCreationYear = fileCreationYear',
             headerSize = headerSize',
             offsetToPointData = offsetToPointData',
             numOfVariableLengthRecords = numOfVariableLengthRecords',
             pointDataRecordFormat = pointDataRecordFormat',
             pointDataRecordLength = pointDataRecordLength',
             legacyNumOfPointRecords = legacyNumOfPointRecords',
             legacyNumOfPointByReturn = legacyNumOfPointByReturn',
             xScaleFactor = xScaleFactor',
             yScaleFactor = yScaleFactor',
             zScaleFactor = zScaleFactor',
             xOffset = xOffset',
             yOffset = yOffset',
             zOffset = zOffset',
             maxX = maxX',
             maxY = maxY',
             maxZ = maxZ',
             minX = minX',
             minY = minY',
             minZ = minZ',
             startOfWaveformDataPacketRecord = startOfWaveformDataPacketRecord',
             startOfFirstExtendedVariableLengthRecord = startOfFirstExtendedVariableLengthRecord',
             numOfExtendedVariableLengthRecords = numOfExtendedVariableLengthRecords',
             numOfPointRecords = numOfPointRecords',
             numOfPointsByReturn = numOfPointsByReturn',
             hasStartOfWaveformDataPacketRecord = hasWaveform,
             hasStartOfFirstExtendedVariableLengthRecord = hasV14,
             hasNumOfExtendedVariableLengthRecords = hasV14,
             hasNumOfPointRecords = hasV14,
             hasNumOfPointsByReturn = hasV14 \<rparr>, o37)
   }"

subsection \<open>Diagnostics\<close>

text \<open>
  One constructor per message of \<^verbatim>\<open>_LLAS_logError\<close> in the decoding pipeline, in the
  order of the source: the payload limit of a variable length record, the two messages for
  an unsupported point data record format (formats 5 to 15, and formats from 16), the
  invalid format of the header check in \<^verbatim>\<open>read\<close>, and the overflow of the region of
  the variable length records.
\<close>

datatype diag =
    ExceedPayloadLimit "16 word"
  | UnsupportedPointFormat "8 word"
  | InvalidPointFormat "8 word"
  | VLRExceedsPointData

subsection \<open>Variable length records\<close>

text \<open>The member \<^verbatim>\<open>record\<close> of the source is called \<open>recordBytes\<close> here.\<close>

record VariableLengthRecord =
  reserved :: "8 word"
  userID :: "byte list"
  recordID :: "16 word"
  recordLengthAfterHeader :: "16 word"
  description :: "byte list"
  recordBytes :: "byte list"

text \<open>The value-initialised record of the default constructor.\<close>

definition defaultVariableLengthRecord :: VariableLengthRecord where
  "defaultVariableLengthRecord =
     \<lparr> reserved = 0, userID = replicate 17 0, recordID = 0, recordLengthAfterHeader = 0,
       description = replicate 33 0, recordBytes = [] \<rparr>"

text \<open>
  \<^verbatim>\<open>VariableLengthRecord::readVariableLengthRecord\<close>. It takes the offset by reference
  and advances it; the model returns the record, the new offset and the messages logged.
  The source copies \<^verbatim>\<open>NUM_BYTES_RESERVED = 2\<close> bytes to the one-byte member
  \<^verbatim>\<open>reserved\<close>; the second byte lands on the first element of \<^verbatim>\<open>userID\<close>, which the
  next copy overwrites. The payload is taken with the iterator range
  \<^verbatim>\<open>fileBytes.begin() + offset\<close> to \<^verbatim>\<open>fileBytes.begin() + offset + nBytes\<close>, unchecked
  like the copies.
\<close>

definition readVariableLengthRecord ::
    "byte list \<Rightarrow> nat \<Rightarrow> (VariableLengthRecord \<times> nat \<times> diag list) option" where
  "readVariableLengthRecord fileBytes offset = do {
     (reserved', o1) \<leftarrow> readWord fileBytes offset 2;
     (userID', o2) \<leftarrow> readBytes fileBytes o1 16;
     (recordID', o3) \<leftarrow> readWord fileBytes o2 2;
     (recordLengthAfterHeader', o4) \<leftarrow> readWord fileBytes o3 2;
     (description', o5) \<leftarrow> readBytes fileBytes o4 32;
     if unat (recordLengthAfterHeader' :: 16 word) \<le> 65535
     then do {
       (record', o6) \<leftarrow> readBytes fileBytes o5 (unat recordLengthAfterHeader');
       Some (\<lparr> reserved = reserved', userID = charArray userID', recordID = recordID',
                recordLengthAfterHeader = recordLengthAfterHeader',
                description = charArray description', recordBytes = record' \<rparr>, o6, [])
     }
     else
       Some (\<lparr> reserved = reserved', userID = charArray userID', recordID = recordID',
                recordLengthAfterHeader = recordLengthAfterHeader',
                description = charArray description', recordBytes = [] \<rparr>, o5,
             [ExceedPayloadLimit recordLengthAfterHeader'])
   }"

subsection \<open>Point data records\<close>

text \<open>The members \<^verbatim>\<open>x\<close>, \<^verbatim>\<open>y\<close>, \<^verbatim>\<open>z\<close> of the source are \<open>pointX\<close>, \<open>pointY\<close>, \<open>pointZ\<close>.\<close>

record PointDataRecord =
  pointX :: "32 word"
  pointY :: "32 word"
  pointZ :: "32 word"
  intensity :: "16 word"
  classification :: "8 word"
  scanAngleRank :: "8 word"
  userData :: "8 word"
  pointSourceID :: "16 word"
  GPSTime :: "64 word"
  red :: "16 word"
  green :: "16 word"
  blue :: "16 word"

definition defaultPointDataRecord :: PointDataRecord where
  "defaultPointDataRecord =
     \<lparr> pointX = 0, pointY = 0, pointZ = 0, intensity = 0, classification = 0,
       scanAngleRank = 0, userData = 0, pointSourceID = 0, GPSTime = 0,
       red = 0, green = 0, blue = 0 \<rparr>"

text \<open>
  \<^verbatim>\<open>PointDataRecord::_readPointDataRecordFotmat0to4\<close> (the name is the source's). The
  sensor-data byte is stepped over without being read.
\<close>

definition readPointDataRecordFotmat0to4 ::
    "byte list \<Rightarrow> nat \<Rightarrow> 8 word \<Rightarrow> (PointDataRecord \<times> nat) option" where
  "readPointDataRecordFotmat0to4 fileBytes offset format = do {
     (x', o1) \<leftarrow> readWord fileBytes offset 4;
     (y', o2) \<leftarrow> readWord fileBytes o1 4;
     (z', o3) \<leftarrow> readWord fileBytes o2 4;
     (intensity', o4) \<leftarrow> readWord fileBytes o3 2;
     let o5 = o4 + 1;
     (classification', o6) \<leftarrow> readWord fileBytes o5 1;
     (scanAngleRank', o7) \<leftarrow> readWord fileBytes o6 1;
     (userData', o8) \<leftarrow> readWord fileBytes o7 1;
     (pointSourceID', o9) \<leftarrow> readWord fileBytes o8 2;
     (GPSTime', o10) \<leftarrow>
        (if format = 1 \<or> format = 3 \<or> format = 4 then readWord fileBytes o9 8
         else Some (0, o9));
     (red', o11) \<leftarrow>
        (if format = 2 \<or> format = 3 then readWord fileBytes o10 2 else Some (0, o10));
     (green', o12) \<leftarrow>
        (if format = 2 \<or> format = 3 then readWord fileBytes o11 2 else Some (0, o11));
     (blue', o13) \<leftarrow>
        (if format = 2 \<or> format = 3 then readWord fileBytes o12 2 else Some (0, o12));
     Some (\<lparr> pointX = x', pointY = y', pointZ = z', intensity = intensity',
              classification = classification', scanAngleRank = scanAngleRank',
              userData = userData', pointSourceID = pointSourceID', GPSTime = GPSTime',
              red = red', green = green', blue = blue' \<rparr>, o13)
   }"

text \<open>\<^verbatim>\<open>PointDataRecord::_readPointDataRecordFotmat5to15\<close>: a message and a default record.\<close>

definition readPointDataRecordFotmat5to15 ::
    "byte list \<Rightarrow> nat \<Rightarrow> 8 word \<Rightarrow> PointDataRecord \<times> nat \<times> diag list" where
  "readPointDataRecordFotmat5to15 fileBytes offset format =
     (defaultPointDataRecord, offset, [UnsupportedPointFormat format])"

text \<open>\<^verbatim>\<open>PointDataRecord::readPointDataRecord\<close>, dispatching on \<^verbatim>\<open>(int)format\<close>.\<close>

definition readPointDataRecord ::
    "byte list \<Rightarrow> nat \<Rightarrow> 8 word \<Rightarrow> (PointDataRecord \<times> nat \<times> diag list) option" where
  "readPointDataRecord fileBytes offset format =
     (if 0 \<le> uint format \<and> uint format < 5
      then map_option (\<lambda>(p, offset'). (p, offset', []))
             (readPointDataRecordFotmat0to4 fileBytes offset format)
      else if 5 \<le> uint format \<and> uint format < 16
      then Some (readPointDataRecordFotmat5to15 fileBytes offset format)
      else Some (defaultPointDataRecord, offset, [UnsupportedPointFormat format]))"

subsection \<open>Extended variable length records\<close>

record ExtendedVariableLengthRecord =
  reservedE :: "8 word"
  userIDE :: "byte list"
  recordIDE :: "16 word"
  recordLengthAfterHeaderE :: "64 word"
  descriptionE :: "byte list"
  recordBytesE :: "byte list"

text \<open>
  \<^verbatim>\<open>ExtendedVariableLengthRecord::readExtendedVariableLengthRecord\<close>. The source copies
  \<^verbatim>\<open>NUM_BYTES_RECORD_LENGTH_AFTER_HEADER = 16\<close> bytes to the 8-byte member, which keeps
  the first eight; the offset advances by 16. The payload length is converted to the signed
  \<^verbatim>\<open>std::streamsize\<close>: from \<open>2 ^ 63\<close> on it is negative and the iterator range is
  invalid, which is an access outside the buffer like the others.
\<close>

definition readExtendedVariableLengthRecord ::
    "byte list \<Rightarrow> nat \<Rightarrow> (ExtendedVariableLengthRecord \<times> nat) option" where
  "readExtendedVariableLengthRecord fileBytes offset = do {
     (reserved', o1) \<leftarrow> readWord fileBytes offset 2;
     (userID', o2) \<leftarrow> readBytes fileBytes o1 16;
     (recordID', o3) \<leftarrow> readWord fileBytes o2 2;
     (recordLengthAfterHeader', o4) \<leftarrow> readWord fileBytes o3 16;
     (description', o5) \<leftarrow> readBytes fileBytes o4 32;
     (record', o6) \<leftarrow>
        (if unat (recordLengthAfterHeader' :: 64 word) < 2 ^ 63
         then readBytes fileBytes o5 (unat recordLengthAfterHeader')
         else None);
     Some (\<lparr> reservedE = reserved', userIDE = charArray userID', recordIDE = recordID',
              recordLengthAfterHeaderE = recordLengthAfterHeader',
              descriptionE = charArray description', recordBytesE = record' \<rparr>, o6)
   }"

subsection \<open>The top-level reader\<close>

record LasData =
  header :: PublicHeader
  variableLengthRecords :: "VariableLengthRecord list"
  pointDataRecords :: "PointDataRecord list"
  extendedVariableLengthRecord :: "ExtendedVariableLengthRecord list"

text \<open>
  The loop over the variable length records in \<^verbatim>\<open>read\<close>, with \<open>k\<close> iterations left.
  The vector was resized to the declared count beforehand, so the slots that are not
  reached keep default records. The test converts the offset to \<^verbatim>\<open>LLAS_ULONG\<close>
  (32 bits). The result is the flag \<^verbatim>\<open>isOK\<close>, the vector and the messages.
\<close>

fun readVariableLengthRecords ::
    "byte list \<Rightarrow> PublicHeader \<Rightarrow> nat \<Rightarrow> nat
      \<Rightarrow> (bool \<times> VariableLengthRecord list \<times> diag list) option" where
  "readVariableLengthRecords fileBytes publicHeader 0 offset = Some (True, [], [])"
| "readVariableLengthRecords fileBytes publicHeader (Suc k) offset =
     (if offset mod 2 ^ 32 \<ge> unat (offsetToPointData publicHeader)
      then Some (False, replicate (Suc k) defaultVariableLengthRecord, [VLRExceedsPointData])
      else do {
        (variableLengthRecord, offset', log) \<leftarrow> readVariableLengthRecord fileBytes offset;
        (isOK, records, log') \<leftarrow> readVariableLengthRecords fileBytes publicHeader k offset';
        Some (isOK, variableLengthRecord # records, log @ log')
      })"

text \<open>
  The start of point record \<open>iRecord\<close>:
  \<^verbatim>\<open>publicHeader.offsetToPointData + iRecord * publicHeader.pointDataRecordLength\<close>,
  computed in unsigned 64-bit arithmetic.
\<close>

definition pointRecordOffset :: "PublicHeader \<Rightarrow> nat \<Rightarrow> nat" where
  "pointRecordOffset publicHeader iRecord =
     (unat (offsetToPointData publicHeader)
        + iRecord * unat (pointDataRecordLength publicHeader)) mod 2 ^ 64"

text \<open>
  The loop over the point records, from index \<open>iRecord\<close> with \<open>k\<close> iterations left.
  Each record is decoded at its own computed offset; the offset the decoder hands back is
  dropped.
\<close>

fun readPointDataRecords ::
    "byte list \<Rightarrow> PublicHeader \<Rightarrow> 8 word \<Rightarrow> nat \<Rightarrow> nat
      \<Rightarrow> (PointDataRecord list \<times> diag list) option" where
  "readPointDataRecords fileBytes publicHeader format iRecord 0 = Some ([], [])"
| "readPointDataRecords fileBytes publicHeader format iRecord (Suc k) = do {
     (pointDataRecord, offset', log) \<leftarrow>
        readPointDataRecord fileBytes (pointRecordOffset publicHeader iRecord) format;
     (records, log') \<leftarrow> readPointDataRecords fileBytes publicHeader format (Suc iRecord) k;
     Some (pointDataRecord # records, log @ log')
   }"

text \<open>The loop over the extended variable length records, read one after the other.\<close>

fun readExtendedVariableLengthRecords ::
    "byte list \<Rightarrow> nat \<Rightarrow> nat \<Rightarrow> ExtendedVariableLengthRecord list option" where
  "readExtendedVariableLengthRecords fileBytes 0 offset = Some []"
| "readExtendedVariableLengthRecords fileBytes (Suc k) offset = do {
     (extendedVariableLengthRecord', offset') \<leftarrow>
        readExtendedVariableLengthRecord fileBytes offset;
     records \<leftarrow> readExtendedVariableLengthRecords fileBytes k offset';
     Some (extendedVariableLengthRecord' # records)
   }"

text \<open>
  \<^verbatim>\<open>read\<close>, from the point where the file has been loaded into \<^verbatim>\<open>fileBytes\<close> (a file
  that cannot be opened returns \<^verbatim>\<open>nullptr\<close> before). The result is \<open>None\<close> when the
  source would leave the buffer, and otherwise the returned pointer (\<open>None\<close> for
  \<^verbatim>\<open>nullptr\<close>) with the messages logged. The test \<^verbatim>\<open>format < 0\<close> of the source is
  on an unsigned byte.
\<close>

definition read :: "byte list \<Rightarrow> bool \<Rightarrow> (LasData option \<times> diag list) option" where
  "read fileBytes pointDataOnly = do {
     (publicHeader, headerEnd) \<leftarrow> readPublicHeader fileBytes;
     let format = pointDataRecordFormat publicHeader;
     if uint format < 0 \<or> 10 < uint format
     then Some (None, [InvalidPointFormat format])
     else do {
       let isLegacyFormat = (format \<le> 5);
       (isOK, variableLengthRecords', log1) \<leftarrow>
          (if \<not> pointDataOnly
           then readVariableLengthRecords fileBytes publicHeader
                  (unat (numOfVariableLengthRecords publicHeader))
                  (unat (headerSize publicHeader))
           else Some (True, [], []));
       let nPointRecords =
          (if isLegacyFormat then unat (legacyNumOfPointRecords publicHeader)
           else unat (numOfPointRecords publicHeader));
       (pointDataRecords', log2) \<leftarrow>
          readPointDataRecords fileBytes publicHeader format 0 nPointRecords;
       extendedVariableLengthRecords' \<leftarrow>
          (if \<not> pointDataOnly
              \<and> hasStartOfFirstExtendedVariableLengthRecord publicHeader
              \<and> hasNumOfExtendedVariableLengthRecords publicHeader
           then readExtendedVariableLengthRecords fileBytes
                  (unat (numOfExtendedVariableLengthRecords publicHeader))
                  (unat (startOfFirstExtendedVariableLengthRecord publicHeader))
           else Some []);
       Some (if isOK
             then Some \<lparr> header = publicHeader,
                          variableLengthRecords = variableLengthRecords',
                          pointDataRecords = pointDataRecords',
                          extendedVariableLengthRecord = extendedVariableLengthRecords' \<rparr>
             else None,
             log1 @ log2)
     }
   }"

section \<open>Facts about the readers\<close>

subsection \<open>Sequencing of the unchecked reads\<close>

lemma readBytes_bind:
  "Option.bind (readBytes fb off n) f = (if off + n \<le> length fb then f (take n (drop off fb), off + n) else None)"
  by (simp add: readBytes_def)

lemma readWord_bind:
  "Option.bind (readWord fb off n) f = (if off + n \<le> length fb then f (le_word (take n (drop off fb)), off + n) else None)"
  by (simp add: readWord_def readBytes_def)

lemma readWords_bind:
  "Option.bind (readWords fb off k w) f = (if off + k * w \<le> length fb then f (le_words k w (take (k * w) (drop off fb)), off + k * w) else None)"
  by (simp add: readWords_def readBytes_def)

lemma unat_word16_le: "unat (w :: 16 word) \<le> 65535"
  using unsigned_less [of w, where ?'a = nat] by simp

lemma four_le_imp_three_le: "(4 :: 8 word) \<le> v \<Longrightarrow> 3 \<le> v"
  by (simp add: word_le_nat_alt)

subsection \<open>The public header\<close>

text \<open>
  What \<open>readPublicHeader\<close> returns, by the three ranges of the minor version: either the
  buffer is shorter than the header that the version calls for, or every field is the
  little-endian value of the bytes at its fixed place.
\<close>

lemma readPublicHeader_cases:
  "case readPublicHeader fb of
     None \<Rightarrow> length fb < 227 + (if (3 :: 8 word) \<le> le_word (take 1 (drop 25 fb)) then 8 else 0)
                            + (if (4 :: 8 word) \<le> le_word (take 1 (drop 25 fb)) then 140 else 0)
   | Some (h, off) \<Rightarrow>
       versionMinor h = le_word (take 1 (drop 25 fb))
     \<and> hasStartOfWaveformDataPacketRecord h = (3 \<le> versionMinor h)
     \<and> hasStartOfFirstExtendedVariableLengthRecord h = (4 \<le> versionMinor h)
     \<and> hasNumOfExtendedVariableLengthRecords h = (4 \<le> versionMinor h)
     \<and> hasNumOfPointRecords h = (4 \<le> versionMinor h)
     \<and> hasNumOfPointsByReturn h = (4 \<le> versionMinor h)
     \<and> startOfWaveformDataPacketRecord h =
          (if 3 \<le> versionMinor h then le_word (take 8 (drop 227 fb)) else 0)
     \<and> startOfFirstExtendedVariableLengthRecord h =
          (if 4 \<le> versionMinor h then le_word (take 8 (drop 235 fb)) else 0)
     \<and> numOfExtendedVariableLengthRecords h =
          (if 4 \<le> versionMinor h then le_word (take 4 (drop 243 fb)) else 0)
     \<and> numOfPointRecords h =
          (if 4 \<le> versionMinor h then le_word (take 8 (drop 247 fb)) else 0)
     \<and> numOfPointsByReturn h =
          (if 4 \<le> versionMinor h then le_words 15 8 (take 120 (drop 255 fb)) else replicate 15 0)
     \<and> off = 227 + (if 3 \<le> versionMinor h then 8 else 0) + (if 4 \<le> versionMinor h then 140 else 0)
     \<and> off \<le> length fb
     \<and> fileSignature h = charArray (take 4 fb)
     \<and> headerSize h = le_word (take 2 (drop 94 fb))
     \<and> offsetToPointData h = le_word (take 4 (drop 96 fb))
     \<and> numOfVariableLengthRecords h = le_word (take 4 (drop 100 fb))
     \<and> pointDataRecordFormat h = le_word (take 1 (drop 104 fb))
     \<and> pointDataRecordLength h = le_word (take 2 (drop 105 fb))
     \<and> legacyNumOfPointRecords h = le_word (take 4 (drop 107 fb))"
proof -
  let ?vm = "le_word (take 1 (drop 25 fb)) :: 8 word"
  consider (v14) "4 \<le> ?vm" | (v13) "3 \<le> ?vm" "\<not> 4 \<le> ?vm" | (old) "\<not> 3 \<le> ?vm"
    by blast
  then show ?thesis
  proof cases
    case v14
    then have "3 \<le> ?vm" by (rule four_le_imp_three_le)
    with v14 show ?thesis
      unfolding readPublicHeader_def
      by (simp add: readBytes_bind readWord_bind readWords_bind Let_def)
  next
    case v13
    then show ?thesis
      unfolding readPublicHeader_def
      by (simp add: readBytes_bind readWord_bind readWords_bind Let_def)
  next
    case old
    then have "\<not> 4 \<le> ?vm" using four_le_imp_three_le by blast
    with old show ?thesis
      unfolding readPublicHeader_def
      by (simp add: readBytes_bind readWord_bind readWords_bind Let_def)
  qed
qed

lemma readPublicHeader_SomeD:
  assumes "readPublicHeader fb = Some (h, off)"
  shows hdr_versionMinor: "versionMinor h = le_word (take 1 (drop 25 fb))"
    and hdr_hasWaveform: "hasStartOfWaveformDataPacketRecord h = (3 \<le> versionMinor h)"
    and hdr_hasFirstEVLR: "hasStartOfFirstExtendedVariableLengthRecord h = (4 \<le> versionMinor h)"
    and hdr_hasNumEVLR: "hasNumOfExtendedVariableLengthRecords h = (4 \<le> versionMinor h)"
    and hdr_hasNumPoints: "hasNumOfPointRecords h = (4 \<le> versionMinor h)"
    and hdr_hasByReturn: "hasNumOfPointsByReturn h = (4 \<le> versionMinor h)"
    and hdr_waveform: "startOfWaveformDataPacketRecord h =
          (if 3 \<le> versionMinor h then le_word (take 8 (drop 227 fb)) else 0)"
    and hdr_firstEVLR: "startOfFirstExtendedVariableLengthRecord h =
          (if 4 \<le> versionMinor h then le_word (take 8 (drop 235 fb)) else 0)"
    and hdr_numEVLR: "numOfExtendedVariableLengthRecords h =
          (if 4 \<le> versionMinor h then le_word (take 4 (drop 243 fb)) else 0)"
    and hdr_numPoints: "numOfPointRecords h =
          (if 4 \<le> versionMinor h then le_word (take 8 (drop 247 fb)) else 0)"
    and hdr_byReturn: "numOfPointsByReturn h =
          (if 4 \<le> versionMinor h then le_words 15 8 (take 120 (drop 255 fb)) else replicate 15 0)"
    and hdr_end: "off = 227 + (if 3 \<le> versionMinor h then 8 else 0) + (if 4 \<le> versionMinor h then 140 else 0)"
    and hdr_end_le: "off \<le> length fb"
    and hdr_fileSignature: "fileSignature h = charArray (take 4 fb)"
    and hdr_headerSize: "headerSize h = le_word (take 2 (drop 94 fb))"
    and hdr_offsetToPointData: "offsetToPointData h = le_word (take 4 (drop 96 fb))"
    and hdr_numVLR: "numOfVariableLengthRecords h = le_word (take 4 (drop 100 fb))"
    and hdr_format: "pointDataRecordFormat h = le_word (take 1 (drop 104 fb))"
    and hdr_recordLength: "pointDataRecordLength h = le_word (take 2 (drop 105 fb))"
    and hdr_legacyNumPoints: "legacyNumOfPointRecords h = le_word (take 4 (drop 107 fb))"
  using readPublicHeader_cases [of fb] unfolding assms option.case prod.case by blast+

lemma readPublicHeader_NoneD:
  assumes "readPublicHeader fb = None"
  shows "length fb < 227 + (if (3 :: 8 word) \<le> le_word (take 1 (drop 25 fb)) then 8 else 0)
                            + (if (4 :: 8 word) \<le> le_word (take 1 (drop 25 fb)) then 140 else 0)"
  using readPublicHeader_cases [of fb] unfolding assms option.case .

lemma readPublicHeader_short:
  assumes "length fb < 227"
  shows "readPublicHeader fb = None"
proof (cases "readPublicHeader fb")
  case None then show ?thesis .
next
  case (Some r)
  obtain h off where r: "r = (h, off)" by (cases r)
  from hdr_end_le [of fb h off] hdr_end [of fb h off] Some r
  have "off \<le> length fb" "227 \<le> off" by (simp_all split: if_splits)
  with assms show ?thesis by simp
qed

lemma readPublicHeader_long:
  assumes "375 \<le> length fb"
  shows "\<exists>h off. readPublicHeader fb = Some (h, off)"
proof (cases "readPublicHeader fb")
  case None
  from readPublicHeader_NoneD [OF None] assms show ?thesis by (simp split: if_splits)
next
  case (Some r) then show ?thesis by (cases r) simp
qed

subsection \<open>Variable length records\<close>

lemma readVariableLengthRecord_cases:
  "case readVariableLengthRecord fb off of
     None \<Rightarrow> True
   | Some (vlr, off', lg) \<Rightarrow>
       lg = []
     \<and> recordLengthAfterHeader vlr = le_word (take 2 (drop (off + 20) fb))
     \<and> recordBytes vlr = take (unat (recordLengthAfterHeader vlr)) (drop (off + 54) fb)
     \<and> length (recordBytes vlr) = unat (recordLengthAfterHeader vlr)
     \<and> off' = off + 54 + unat (recordLengthAfterHeader vlr)
     \<and> off' \<le> length fb"
  unfolding readVariableLengthRecord_def
  by (simp add: readBytes_bind readWord_bind unat_word16_le ac_simps)

lemma readVariableLengthRecord_SomeD:
  assumes "readVariableLengthRecord fb off = Some (vlr, off', lg)"
  shows "lg = []
     \<and> recordLengthAfterHeader vlr = le_word (take 2 (drop (off + 20) fb))
     \<and> recordBytes vlr = take (unat (recordLengthAfterHeader vlr)) (drop (off + 54) fb)
     \<and> length (recordBytes vlr) = unat (recordLengthAfterHeader vlr)
     \<and> off' = off + 54 + unat (recordLengthAfterHeader vlr)
     \<and> off' \<le> length fb"
  using readVariableLengthRecord_cases [where fb = fb and off = off] unfolding assms option.case prod.case .

lemma readVariableLengthRecords_SomeD:
  "readVariableLengthRecords fb h k off = Some (isOK, vlrs, lg) \<Longrightarrow>
     length vlrs = k \<and> lg = (if isOK then [] else [VLRExceedsPointData])
     \<and> (\<not> isOK \<longrightarrow> (\<exists>decoded. length decoded < k
            \<and> vlrs = decoded @ replicate (k - length decoded) defaultVariableLengthRecord))"
proof (induction k arbitrary: off isOK vlrs lg)
  case 0
  then show ?case by simp
next
  case (Suc k)
  show ?case
  proof (cases "unat (offsetToPointData h) \<le> off mod 2 ^ 32")
    case True
    with Suc.prems show ?thesis
      by (auto intro: exI [of _ "[]"])
  next
    case False
    with Suc.prems obtain vlr off' l isOK' vlrs' lg' where
      r: "readVariableLengthRecord fb off = Some (vlr, off', l)" and
      rs: "readVariableLengthRecords fb h k off' = Some (isOK', vlrs', lg')" and
      eq: "isOK = isOK'" "vlrs = vlr # vlrs'" "lg = l @ lg'"
      by (auto simp: bind_eq_Some_conv)
    from readVariableLengthRecord_SomeD [OF r] have l: "l = []" by simp
    from Suc.IH [OF rs] have ih: "length vlrs' = k" "lg' = (if isOK' then [] else [VLRExceedsPointData])"
      "\<not> isOK' \<longrightarrow> (\<exists>decoded. length decoded < k
            \<and> vlrs' = decoded @ replicate (k - length decoded) defaultVariableLengthRecord)"
      by simp_all
    show ?thesis
    proof (intro conjI impI)
      show "length vlrs = Suc k" using eq ih by simp
      show "lg = (if isOK then [] else [VLRExceedsPointData])" using eq ih l by simp
    next
      assume "\<not> isOK"
      with eq ih obtain decoded where d: "length decoded < k"
        "vlrs' = decoded @ replicate (k - length decoded) defaultVariableLengthRecord" by auto
      show "\<exists>decoded. length decoded < Suc k
            \<and> vlrs = decoded @ replicate (Suc k - length decoded) defaultVariableLengthRecord"
        using d eq by (intro exI [of _ "vlr # decoded"]) simp
    qed
  qed
qed

subsection \<open>Point data records\<close>

lemma readPointDataRecordFotmat0to4_cases:
  "case readPointDataRecordFotmat0to4 fb off f of
     None \<Rightarrow> length fb < off + 20 + (if f = 1 \<or> f = 3 \<or> f = 4 then 8 else 0)
                                   + (if f = 2 \<or> f = 3 then 6 else 0)
   | Some (p, off') \<Rightarrow>
       pointX p = le_word (take 4 (drop off fb))
     \<and> pointY p = le_word (take 4 (drop (off + 4) fb))
     \<and> pointZ p = le_word (take 4 (drop (off + 8) fb))
     \<and> intensity p = le_word (take 2 (drop (off + 12) fb))
     \<and> classification p = le_word (take 1 (drop (off + 15) fb))
     \<and> scanAngleRank p = le_word (take 1 (drop (off + 16) fb))
     \<and> userData p = le_word (take 1 (drop (off + 17) fb))
     \<and> pointSourceID p = le_word (take 2 (drop (off + 18) fb))
     \<and> GPSTime p = (if f = 1 \<or> f = 3 \<or> f = 4 then le_word (take 8 (drop (off + 20) fb)) else 0)
     \<and> red p = (if f = 2 \<or> f = 3
                 then le_word (take 2 (drop (off + (if f = 3 then 28 else 20)) fb)) else 0)
     \<and> green p = (if f = 2 \<or> f = 3
                 then le_word (take 2 (drop (off + (if f = 3 then 30 else 22)) fb)) else 0)
     \<and> blue p = (if f = 2 \<or> f = 3
                 then le_word (take 2 (drop (off + (if f = 3 then 32 else 24)) fb)) else 0)
     \<and> off' = off + 20 + (if f = 1 \<or> f = 3 \<or> f = 4 then 8 else 0)
                        + (if f = 2 \<or> f = 3 then 6 else 0)
     \<and> off' \<le> length fb"
proof -
  consider "f = 1 \<or> f = 4" | "f = 2" | "f = 3" | "f \<noteq> 1" "f \<noteq> 2" "f \<noteq> 3" "f \<noteq> 4"
    by blast
  then show ?thesis
    unfolding readPointDataRecordFotmat0to4_def
    by cases (auto simp add: readBytes_bind readWord_bind Let_def ac_simps)
qed

lemma readPointDataRecord_unsupported:
  "5 \<le> uint f \<Longrightarrow>
     readPointDataRecord fb off f = Some (defaultPointDataRecord, off, [UnsupportedPointFormat f])"
  by (simp add: readPointDataRecord_def readPointDataRecordFotmat5to15_def)

lemma readPointDataRecords_unsupported:
  "5 \<le> uint f \<Longrightarrow>
     readPointDataRecords fb h f i k =
       Some (replicate k defaultPointDataRecord, replicate k (UnsupportedPointFormat f))"
  by (induction k arbitrary: i) (simp_all add: readPointDataRecord_unsupported)

lemma readPointDataRecord_log:
  "readPointDataRecord fb off f = Some (p, off', l) \<Longrightarrow>
     l = (if uint f < 5 then [] else [UnsupportedPointFormat f])"
  by (auto simp: readPointDataRecord_def readPointDataRecordFotmat5to15_def split: if_splits)

lemma readPointDataRecords_SomeD:
  "readPointDataRecords fb h f i k = Some (ps, lg) \<Longrightarrow>
     length ps = k
   \<and> lg = (if uint f < 5 then [] else replicate k (UnsupportedPointFormat f))
   \<and> (\<forall>j<k. \<exists>off' l.
         readPointDataRecord fb (pointRecordOffset h (i + j)) f = Some (ps ! j, off', l))"
proof (induction k arbitrary: i ps lg)
  case 0
  then show ?case by simp
next
  case (Suc k)
  from Suc.prems obtain p off' l ps' lg' where
    r: "readPointDataRecord fb (pointRecordOffset h i) f = Some (p, off', l)" and
    rs: "readPointDataRecords fb h f (Suc i) k = Some (ps', lg')" and
    eq: "ps = p # ps'" "lg = l @ lg'"
    by (auto simp: bind_eq_Some_conv)
  from Suc.IH [OF rs] have ih: "length ps' = k"
    "lg' = (if uint f < 5 then [] else replicate k (UnsupportedPointFormat f))"
    "\<forall>j<k. \<exists>off' l.
         readPointDataRecord fb (pointRecordOffset h (Suc i + j)) f = Some (ps' ! j, off', l)"
    by simp_all
  have "\<exists>off' l. readPointDataRecord fb (pointRecordOffset h (i + j)) f = Some (ps ! j, off', l)"
    if "j < Suc k" for j
  proof (cases j)
    case 0
    with r eq show ?thesis by simp
  next
    case (Suc j')
    with that ih(3) eq show ?thesis by simp
  qed
  moreover have "length ps = Suc k" using eq ih by simp
  moreover have "lg = (if uint f < 5 then [] else replicate (Suc k) (UnsupportedPointFormat f))"
    using eq ih readPointDataRecord_log [OF r] by simp
  ultimately show ?case by blast
qed

lemma pointRecordOffset_legacy:
  assumes "i < 2 ^ 32"
  shows "pointRecordOffset h i = unat (offsetToPointData h) + i * unat (pointDataRecordLength h)"
proof -
  have a: "unat (offsetToPointData h) < 2 ^ 32"
    using unsigned_less [of "offsetToPointData h", where ?'a = nat] by simp
  have b: "unat (pointDataRecordLength h) \<le> 2 ^ 16"
    using unsigned_less [of "pointDataRecordLength h", where ?'a = nat] by simp
  have "i * unat (pointDataRecordLength h) \<le> 2 ^ 32 * 2 ^ 16"
    using assms b by (intro mult_le_mono) simp_all
  with a have "unat (offsetToPointData h) + i * unat (pointDataRecordLength h) < 2 ^ 64"
    by simp
  then show ?thesis by (simp add: pointRecordOffset_def)
qed

subsection \<open>The top-level reader\<close>

lemma read_SomeD:
  assumes "read fb pdo = Some (res, diags)"
  shows "\<exists>h off. readPublicHeader fb = Some (h, off) \<and>
     (if 10 < uint (pointDataRecordFormat h)
      then res = None \<and> diags = [InvalidPointFormat (pointDataRecordFormat h)]
      else \<exists>isOK vlrs log1 ps log2 evlrs.
          (if \<not> pdo
           then readVariableLengthRecords fb h (unat (numOfVariableLengthRecords h))
                  (unat (headerSize h)) = Some (isOK, vlrs, log1)
           else isOK \<and> vlrs = [] \<and> log1 = [])
        \<and> readPointDataRecords fb h (pointDataRecordFormat h) 0
             (if pointDataRecordFormat h \<le> 5 then unat (legacyNumOfPointRecords h)
              else unat (numOfPointRecords h)) = Some (ps, log2)
        \<and> (if \<not> pdo \<and> hasStartOfFirstExtendedVariableLengthRecord h
               \<and> hasNumOfExtendedVariableLengthRecords h
            then readExtendedVariableLengthRecords fb
                   (unat (numOfExtendedVariableLengthRecords h))
                   (unat (startOfFirstExtendedVariableLengthRecord h)) = Some evlrs
            else evlrs = [])
        \<and> res = (if isOK
                  then Some \<lparr> header = h, variableLengthRecords = vlrs, pointDataRecords = ps,
                               extendedVariableLengthRecord = evlrs \<rparr>
                  else None)
        \<and> diags = log1 @ log2)"
proof -
  from assms obtain h off where hdr: "readPublicHeader fb = Some (h, off)"
    by (auto simp: read_def bind_eq_Some_conv)
  show ?thesis
  proof (cases "10 < uint (pointDataRecordFormat h)")
    case True
    with assms hdr show ?thesis by (auto simp: read_def)
  next
    case False
    with assms hdr show ?thesis
      by (auto simp: read_def Let_def bind_eq_Some_conv split: if_splits)
  qed
qed

lemma read_result:
  assumes rd: "read fb pdo = Some (res, diags)"
      and hdr: "readPublicHeader fb = Some (h, off)"
  shows "(10 < uint (pointDataRecordFormat h) \<longrightarrow>
            res = None \<and> diags = [InvalidPointFormat (pointDataRecordFormat h)])
       \<and> (uint (pointDataRecordFormat h) \<le> 10 \<longrightarrow>
            diags = (if res = None then [VLRExceedsPointData] else [])
                    @ (if uint (pointDataRecordFormat h) < 5 then []
                       else replicate (if pointDataRecordFormat h \<le> 5
                                       then unat (legacyNumOfPointRecords h)
                                       else unat (numOfPointRecords h))
                              (UnsupportedPointFormat (pointDataRecordFormat h)))
          \<and> (res = None \<longleftrightarrow> \<not> pdo \<and> (\<exists>vlrs lg.
                 readVariableLengthRecords fb h (unat (numOfVariableLengthRecords h))
                   (unat (headerSize h)) = Some (False, vlrs, lg)))
          \<and> (\<forall>d. res = Some d \<longrightarrow>
                 header d = h
               \<and> (pdo \<longrightarrow> variableLengthRecords d = [] \<and> extendedVariableLengthRecord d = [])
               \<and> readPointDataRecords fb h (pointDataRecordFormat h) 0
                    (if pointDataRecordFormat h \<le> 5 then unat (legacyNumOfPointRecords h)
                     else unat (numOfPointRecords h))
                    = Some (pointDataRecords d,
                            if uint (pointDataRecordFormat h) < 5 then []
                            else replicate (if pointDataRecordFormat h \<le> 5
                                       then unat (legacyNumOfPointRecords h)
                                       else unat (numOfPointRecords h))
                              (UnsupportedPointFormat (pointDataRecordFormat h)))))"
proof -
  let ?f = "pointDataRecordFormat h"
  let ?n = "if ?f \<le> 5 then unat (legacyNumOfPointRecords h) else unat (numOfPointRecords h)"
  from read_SomeD [OF rd] hdr have alt:
    "if 10 < uint ?f
      then res = None \<and> diags = [InvalidPointFormat ?f]
      else \<exists>isOK vlrs log1 ps log2 evlrs.
          (if \<not> pdo
           then readVariableLengthRecords fb h (unat (numOfVariableLengthRecords h))
                  (unat (headerSize h)) = Some (isOK, vlrs, log1)
           else isOK \<and> vlrs = [] \<and> log1 = [])
        \<and> readPointDataRecords fb h ?f 0 ?n = Some (ps, log2)
        \<and> (if \<not> pdo \<and> hasStartOfFirstExtendedVariableLengthRecord h
               \<and> hasNumOfExtendedVariableLengthRecords h
            then readExtendedVariableLengthRecords fb
                   (unat (numOfExtendedVariableLengthRecords h))
                   (unat (startOfFirstExtendedVariableLengthRecord h)) = Some evlrs
            else evlrs = [])
        \<and> res = (if isOK
                  then Some \<lparr> header = h, variableLengthRecords = vlrs, pointDataRecords = ps,
                               extendedVariableLengthRecord = evlrs \<rparr>
                  else None)
        \<and> diags = log1 @ log2"
    by simp
  show ?thesis
  proof (cases "10 < uint ?f")
    case True
    with alt show ?thesis by simp
  next
    case False
    with alt obtain isOK vlrs log1 ps log2 evlrs where
      v: "if \<not> pdo
           then readVariableLengthRecords fb h (unat (numOfVariableLengthRecords h))
                  (unat (headerSize h)) = Some (isOK, vlrs, log1)
           else isOK \<and> vlrs = [] \<and> log1 = []" and
      p: "readPointDataRecords fb h ?f 0 ?n = Some (ps, log2)" and
      e: "if \<not> pdo \<and> hasStartOfFirstExtendedVariableLengthRecord h
               \<and> hasNumOfExtendedVariableLengthRecords h
            then readExtendedVariableLengthRecords fb
                   (unat (numOfExtendedVariableLengthRecords h))
                   (unat (startOfFirstExtendedVariableLengthRecord h)) = Some evlrs
            else evlrs = []" and
      r: "res = (if isOK
                  then Some \<lparr> header = h, variableLengthRecords = vlrs, pointDataRecords = ps,
                               extendedVariableLengthRecord = evlrs \<rparr>
                  else None)" and
      d: "diags = log1 @ log2"
      by auto
    from readPointDataRecords_SomeD [OF p]
    have log2: "log2 = (if uint ?f < 5 then [] else replicate ?n (UnsupportedPointFormat ?f))"
      by blast
    have log1: "log1 = (if isOK then [] else [VLRExceedsPointData])"
      using v readVariableLengthRecords_SomeD [of fb h _ _ isOK vlrs log1] by (cases pdo) auto
    have none: "res = None \<longleftrightarrow> \<not> isOK" using r by simp
    have iff: "\<not> isOK \<longleftrightarrow> \<not> pdo \<and> (\<exists>vlrs lg.
                 readVariableLengthRecords fb h (unat (numOfVariableLengthRecords h))
                   (unat (headerSize h)) = Some (False, vlrs, lg))"
      using v by (cases pdo) auto
    have some: "\<forall>d. res = Some d \<longrightarrow>
                 header d = h
               \<and> (pdo \<longrightarrow> variableLengthRecords d = [] \<and> extendedVariableLengthRecord d = [])
               \<and> readPointDataRecords fb h ?f 0 ?n
                    = Some (pointDataRecords d,
                            if uint ?f < 5 then []
                            else replicate ?n (UnsupportedPointFormat ?f))"
      using r v e p log2 by (cases isOK; cases pdo) auto
    have c1: "diags = (if res = None then [VLRExceedsPointData] else [])
                    @ (if uint ?f < 5 then [] else replicate ?n (UnsupportedPointFormat ?f))"
      unfolding d log1 log2 none by simp
    have c2: "res = None \<longleftrightarrow> \<not> pdo \<and> (\<exists>vlrs lg.
                 readVariableLengthRecords fb h (unat (numOfVariableLengthRecords h))
                   (unat (headerSize h)) = Some (False, vlrs, lg))"
      unfolding none by (rule iff)
    from False c1 c2 some show ?thesis by blast
  qed
qed

lemma read_null_iff:
  assumes rd: "read fb pdo = Some (res, diags)"
      and hdr: "readPublicHeader fb = Some (h, off)"
  shows "res = None \<longleftrightarrow>
           10 < uint (pointDataRecordFormat h) \<or> (\<not> pdo \<and> VLRExceedsPointData \<in> set diags)"
    and "VLRExceedsPointData \<in> set diags \<longleftrightarrow>
           uint (pointDataRecordFormat h) \<le> 10 \<and> \<not> pdo \<and> (\<exists>vlrs lg.
                 readVariableLengthRecords fb h (unat (numOfVariableLengthRecords h))
                   (unat (headerSize h)) = Some (False, vlrs, lg))"
proof -
  note R = read_result [OF rd hdr]
  have *: "(res = None \<longleftrightarrow>
           10 < uint (pointDataRecordFormat h) \<or> (\<not> pdo \<and> VLRExceedsPointData \<in> set diags))
     \<and> (VLRExceedsPointData \<in> set diags \<longleftrightarrow>
           uint (pointDataRecordFormat h) \<le> 10 \<and> \<not> pdo \<and> (\<exists>vlrs lg.
                 readVariableLengthRecords fb h (unat (numOfVariableLengthRecords h))
                   (unat (headerSize h)) = Some (False, vlrs, lg)))"
  proof (cases "10 < uint (pointDataRecordFormat h)")
    case True
    with R show ?thesis by simp
  next
    case False
    then have le: "uint (pointDataRecordFormat h) \<le> 10" by simp
    from R le have d: "diags = (if res = None then [VLRExceedsPointData] else [])
                    @ (if uint (pointDataRecordFormat h) < 5 then []
                       else replicate (if pointDataRecordFormat h \<le> 5
                                       then unat (legacyNumOfPointRecords h)
                                       else unat (numOfPointRecords h))
                              (UnsupportedPointFormat (pointDataRecordFormat h)))"
      and n: "res = None \<longleftrightarrow> \<not> pdo \<and> (\<exists>vlrs lg.
                 readVariableLengthRecords fb h (unat (numOfVariableLengthRecords h))
                   (unat (headerSize h)) = Some (False, vlrs, lg))"
      by blast+
    have "VLRExceedsPointData \<in> set diags \<longleftrightarrow> res = None"
      by (subst d) auto
    with False le n show ?thesis by blast
  qed
  from * show "res = None \<longleftrightarrow>
           10 < uint (pointDataRecordFormat h) \<or> (\<not> pdo \<and> VLRExceedsPointData \<in> set diags)"
    by blast
  from * show "VLRExceedsPointData \<in> set diags \<longleftrightarrow>
           uint (pointDataRecordFormat h) \<le> 10 \<and> \<not> pdo \<and> (\<exists>vlrs lg.
                 readVariableLengthRecords fb h (unat (numOfVariableLengthRecords h))
                   (unat (headerSize h)) = Some (False, vlrs, lg))"
    by blast
qed

lemma read_short:
  assumes "length fb < 227"
  shows "read fb pdo = None"
  by (simp add: read_def readPublicHeader_short [OF assms])

lemma read_unsupported:
  assumes hdr: "readPublicHeader fb = Some (h, off)"
      and f: "5 \<le> uint (pointDataRecordFormat h)" "uint (pointDataRecordFormat h) \<le> 10"
  shows "read fb True =
           Some (Some \<lparr> header = h, variableLengthRecords = [],
                        pointDataRecords =
                          replicate (if pointDataRecordFormat h \<le> 5
                                     then unat (legacyNumOfPointRecords h)
                                     else unat (numOfPointRecords h)) defaultPointDataRecord,
                        extendedVariableLengthRecord = [] \<rparr>,
                 replicate (if pointDataRecordFormat h \<le> 5
                            then unat (legacyNumOfPointRecords h)
                            else unat (numOfPointRecords h))
                   (UnsupportedPointFormat (pointDataRecordFormat h)))"
  using f unfolding read_def hdr
  by (simp add: Let_def readPointDataRecords_unsupported)

subsection \<open>Evaluation on concrete files\<close>

lemma le_word_Nil: "le_word [] = 0"
  by (simp add: le_word_def)

lemma le_word_Cons: "le_word (b # bs) = word_of_nat (unat b) + 256 * le_word bs"
  by (simp add: le_word_def)

lemma le_word_replicate_zero: "le_word (replicate n 0) = 0"
  by (induction n) (simp_all add: le_word_def)

lemmas le_word_eval = le_word_Nil le_word_Cons le_word_replicate_zero

lemma readVariableLengthRecords_numeral:
  "readVariableLengthRecords fb h (numeral n) off =
     readVariableLengthRecords fb h (Suc (pred_numeral n)) off"
  by (simp only: numeral_eq_Suc)

lemma readPointDataRecords_numeral:
  "readPointDataRecords fb h f i (numeral n) =
     readPointDataRecords fb h f i (Suc (pred_numeral n))"
  by (simp only: numeral_eq_Suc)

lemma readExtendedVariableLengthRecords_numeral:
  "readExtendedVariableLengthRecords fb (numeral n) off =
     readExtendedVariableLengthRecords fb (Suc (pred_numeral n)) off"
  by (simp only: numeral_eq_Suc)

lemmas loop_eval = readVariableLengthRecords_numeral readPointDataRecords_numeral
  readExtendedVariableLengthRecords_numeral

lemma replicate_2: "replicate 2 x = [x, x]"
  by (simp add: numeral_2_eq_2)

text \<open>
  A file with the signature \<open>XXXX\<close>, version 1.0, point format 0 and no points.
\<close>

lemma signature_example:
  "\<exists>h. readPublicHeader ([88, 88, 88, 88] @ replicate 223 0) = Some (h, 227)
      \<and> fileSignature h = [88, 88, 88, 88, 0]
      \<and> read ([88, 88, 88, 88] @ replicate 223 0) True
           = Some (Some \<lparr> header = h, variableLengthRecords = [], pointDataRecords = [],
                          extendedVariableLengthRecord = [] \<rparr>, [])"
proof -
  define buf :: "byte list" where "buf = [88, 88, 88, 88] @ replicate 223 0"
  have vm: "(le_word (take 1 (drop 25 buf)) :: 8 word) = 0"
    by (simp add: buf_def le_word_eval)
  have len: "length buf = 227" by (simp add: buf_def)
  obtain h off where hdr: "readPublicHeader buf = Some (h, off)"
    using readPublicHeader_NoneD [of buf] unfolding vm len by (cases "readPublicHeader buf") auto
  have off: "off = 227"
    using hdr_end [OF hdr] unfolding hdr_versionMinor [OF hdr] vm by simp
  have s: "fileSignature h = [88, 88, 88, 88, 0]"
    unfolding hdr_fileSignature [OF hdr] by (simp add: buf_def charArray_def)
  have f: "pointDataRecordFormat h = 0"
    unfolding hdr_format [OF hdr] by (simp add: buf_def le_word_eval)
  have np: "legacyNumOfPointRecords h = 0"
    unfolding hdr_legacyNumPoints [OF hdr] by (simp add: buf_def le_word_eval)
  have "read buf True
           = Some (Some \<lparr> header = h, variableLengthRecords = [], pointDataRecords = [],
                          extendedVariableLengthRecord = [] \<rparr>, [])"
    unfolding read_def hdr by (simp add: f np)
  with hdr off s show ?thesis unfolding buf_def by blast
qed

text \<open>
  A file of 281 bytes that declares two variable length records, a header of 227 bytes and
  point data from offset 281: the first record (54 bytes, empty payload) ends where the
  point data starts.
\<close>

lemma overflow_example:
  "read (replicate 94 0 @ [227, 0, 25, 1, 0, 0, 2, 0, 0, 0] @ replicate 177 0) False
     = Some (None, [VLRExceedsPointData])"
proof -
  define buf :: "byte list"
    where "buf = replicate 94 0 @ [227, 0, 25, 1, 0, 0, 2, 0, 0, 0] @ replicate 177 0"
  have vm: "(le_word (take 1 (drop 25 buf)) :: 8 word) = 0"
    by (simp add: buf_def le_word_eval)
  have len: "length buf = 281" by (simp add: buf_def)
  obtain h off where hdr: "readPublicHeader buf = Some (h, off)"
    using readPublicHeader_NoneD [of buf] unfolding vm len by (cases "readPublicHeader buf") auto
  have f: "pointDataRecordFormat h = 0"
    unfolding hdr_format [OF hdr] by (simp add: buf_def le_word_eval)
  have hs: "headerSize h = 227"
    unfolding hdr_headerSize [OF hdr] by (simp add: buf_def le_word_eval)
  have otpd: "offsetToPointData h = 281"
    unfolding hdr_offsetToPointData [OF hdr] by (simp add: buf_def le_word_eval)
  have nv: "numOfVariableLengthRecords h = 2"
    unfolding hdr_numVLR [OF hdr] by (simp add: buf_def le_word_eval)
  have np: "legacyNumOfPointRecords h = 0"
    unfolding hdr_legacyNumPoints [OF hdr] by (simp add: buf_def le_word_eval)
  have fl: "\<not> hasStartOfFirstExtendedVariableLengthRecord h"
    unfolding hdr_hasFirstEVLR [OF hdr] hdr_versionMinor [OF hdr] vm by simp
  have rec: "\<exists>vlr. readVariableLengthRecord buf 227 = Some (vlr, 281, [])"
    by (simp add: readVariableLengthRecord_def readBytes_bind readWord_bind len)
       (simp add: buf_def le_word_eval)
  then obtain vlrs where loop: "readVariableLengthRecords buf h 2 227
                = Some (False, vlrs, [VLRExceedsPointData])"
    by (auto simp add: loop_eval otpd)
  have "read buf False = Some (None, [VLRExceedsPointData])"
    unfolding read_def hdr
    by (simp add: f hs otpd nv np fl loop)
  then show ?thesis unfolding buf_def .
qed

text \<open>A version 1.4 file with point format 7 and two point records declared.\<close>

lemma format_7_example:
  "\<exists>h. readPublicHeader
          (replicate 25 0 @ [4] @ replicate 78 0 @ [7] @ replicate 142 0 @ [2] @ replicate 127 0)
          = Some (h, 375)
      \<and> pointDataRecordFormat h = 7
      \<and> numOfPointRecords h = 2
      \<and> read (replicate 25 0 @ [4] @ replicate 78 0 @ [7] @ replicate 142 0 @ [2] @ replicate 127 0)
           True
           = Some (Some \<lparr> header = h, variableLengthRecords = [],
                          pointDataRecords = [defaultPointDataRecord, defaultPointDataRecord],
                          extendedVariableLengthRecord = [] \<rparr>,
                   [UnsupportedPointFormat 7, UnsupportedPointFormat 7])
      \<and> read (replicate 25 0 @ [4] @ replicate 78 0 @ [7] @ replicate 142 0 @ [2] @ replicate 127 0)
           False
           = Some (Some \<lparr> header = h, variableLengthRecords = [],
                          pointDataRecords = [defaultPointDataRecord, defaultPointDataRecord],
                          extendedVariableLengthRecord = [] \<rparr>,
                   [UnsupportedPointFormat 7, UnsupportedPointFormat 7])"
proof -
  define buf :: "byte list" where
    "buf = replicate 25 0 @ [4] @ replicate 78 0 @ [7] @ replicate 142 0 @ [2] @ replicate 127 0"
  have vm: "(le_word (take 1 (drop 25 buf)) :: 8 word) = 4"
    by (simp add: buf_def le_word_eval)
  have len: "length buf = 375" by (simp add: buf_def)
  obtain h off where hdr: "readPublicHeader buf = Some (h, off)"
    using readPublicHeader_NoneD [of buf] unfolding vm len by (cases "readPublicHeader buf") auto
  have off: "off = 375"
    using hdr_end [OF hdr] unfolding hdr_versionMinor [OF hdr] vm by simp
  have f: "pointDataRecordFormat h = 7"
    unfolding hdr_format [OF hdr] by (simp add: buf_def le_word_eval)
  have nv: "numOfVariableLengthRecords h = 0"
    unfolding hdr_numVLR [OF hdr] by (simp add: buf_def le_word_eval)
  have np: "numOfPointRecords h = 2"
    unfolding hdr_numPoints [OF hdr] hdr_versionMinor [OF hdr] vm
    by (simp add: buf_def le_word_eval)
  have ne: "numOfExtendedVariableLengthRecords h = 0"
    unfolding hdr_numEVLR [OF hdr] hdr_versionMinor [OF hdr] vm
    by (simp add: buf_def le_word_eval)
  have "read buf False
           = Some (Some \<lparr> header = h, variableLengthRecords = [],
                          pointDataRecords = [defaultPointDataRecord, defaultPointDataRecord],
                          extendedVariableLengthRecord = [] \<rparr>,
                   [UnsupportedPointFormat 7, UnsupportedPointFormat 7])"
    unfolding read_def hdr
    by (simp add: f nv np ne readPointDataRecords_unsupported replicate_2)
  moreover have "read buf True
           = Some (Some \<lparr> header = h, variableLengthRecords = [],
                          pointDataRecords = [defaultPointDataRecord, defaultPointDataRecord],
                          extendedVariableLengthRecord = [] \<rparr>,
                   [UnsupportedPointFormat 7, UnsupportedPointFormat 7])"
    unfolding read_def hdr
    by (simp add: f np readPointDataRecords_unsupported replicate_2)
  ultimately show ?thesis using hdr off f np unfolding buf_def by blast
qed

text \<open>
  A file with point format 5, two point records, one variable length record declared and
  both the header size and the offset to the point data left at zero.
\<close>

lemma format_5_example:
  "\<exists>h off. readPublicHeader
          (replicate 94 0 @ [0, 0, 0, 0, 0, 0, 1, 0, 0, 0, 5, 0, 0, 2, 0, 0, 0] @ replicate 116 0)
          = Some (h, off)
      \<and> pointDataRecordFormat h = 5
      \<and> legacyNumOfPointRecords h = 2
      \<and> read (replicate 94 0 @ [0, 0, 0, 0, 0, 0, 1, 0, 0, 0, 5, 0, 0, 2, 0, 0, 0] @ replicate 116 0)
           False
           = Some (None, [VLRExceedsPointData, UnsupportedPointFormat 5, UnsupportedPointFormat 5])"
proof -
  define buf :: "byte list" where
    "buf = replicate 94 0 @ [0, 0, 0, 0, 0, 0, 1, 0, 0, 0, 5, 0, 0, 2, 0, 0, 0] @ replicate 116 0"
  have vm: "(le_word (take 1 (drop 25 buf)) :: 8 word) = 0"
    by (simp add: buf_def le_word_eval)
  have len: "length buf = 227" by (simp add: buf_def)
  obtain h off where hdr: "readPublicHeader buf = Some (h, off)"
    using readPublicHeader_NoneD [of buf] unfolding vm len by (cases "readPublicHeader buf") auto
  have f: "pointDataRecordFormat h = 5"
    unfolding hdr_format [OF hdr] by (simp add: buf_def le_word_eval)
  have hs: "headerSize h = 0"
    unfolding hdr_headerSize [OF hdr] by (simp add: buf_def le_word_eval)
  have otpd: "offsetToPointData h = 0"
    unfolding hdr_offsetToPointData [OF hdr] by (simp add: buf_def le_word_eval)
  have nv: "numOfVariableLengthRecords h = 1"
    unfolding hdr_numVLR [OF hdr] by (simp add: buf_def le_word_eval)
  have np: "legacyNumOfPointRecords h = 2"
    unfolding hdr_legacyNumPoints [OF hdr] by (simp add: buf_def le_word_eval)
  have fl: "\<not> hasStartOfFirstExtendedVariableLengthRecord h"
    unfolding hdr_hasFirstEVLR [OF hdr] hdr_versionMinor [OF hdr] vm by simp
  have "read buf False
          = Some (None, [VLRExceedsPointData, UnsupportedPointFormat 5, UnsupportedPointFormat 5])"
    unfolding read_def hdr
    by (simp add: f hs otpd nv np fl readPointDataRecords_unsupported replicate_2)
  with hdr f np show ?thesis unfolding buf_def by blast
qed

text \<open>A file with point format 3 and two point records of 34 bytes from offset 227.\<close>

lemma format_3_example:
  "\<exists>d. read (replicate 94 0 @ [227, 0, 227, 0, 0, 0, 0, 0, 0, 0, 3, 34, 0, 2, 0, 0, 0]
               @ replicate 116 0
               @ [1, 0, 0, 0, 2, 0, 0, 0, 3, 0, 0, 0, 4, 0, 9, 5, 6, 7, 8, 0,
                  1, 0, 0, 0, 0, 0, 0, 0, 10, 0, 11, 0, 12, 0]
               @ [21, 0, 0, 0, 22, 0, 0, 0, 23, 0, 0, 0, 24, 0, 9, 25, 26, 27, 28, 0,
                  2, 0, 0, 0, 0, 0, 0, 0, 30, 0, 31, 0, 32, 0]) True = Some (Some d, [])
      \<and> pointDataRecordFormat (header d) = 3
      \<and> offsetToPointData (header d) = 227
      \<and> pointDataRecordLength (header d) = 34
      \<and> length (pointDataRecords d) = 2"
proof -
  define buf :: "byte list" where
    "buf = replicate 94 0 @ [227, 0, 227, 0, 0, 0, 0, 0, 0, 0, 3, 34, 0, 2, 0, 0, 0]
               @ replicate 116 0
               @ [1, 0, 0, 0, 2, 0, 0, 0, 3, 0, 0, 0, 4, 0, 9, 5, 6, 7, 8, 0,
                  1, 0, 0, 0, 0, 0, 0, 0, 10, 0, 11, 0, 12, 0]
               @ [21, 0, 0, 0, 22, 0, 0, 0, 23, 0, 0, 0, 24, 0, 9, 25, 26, 27, 28, 0,
                  2, 0, 0, 0, 0, 0, 0, 0, 30, 0, 31, 0, 32, 0]"
  have vm: "(le_word (take 1 (drop 25 buf)) :: 8 word) = 0"
    by (simp add: buf_def le_word_eval)
  have len: "length buf = 295" by (simp add: buf_def)
  obtain h off where hdr: "readPublicHeader buf = Some (h, off)"
    using readPublicHeader_NoneD [of buf] unfolding vm len by (cases "readPublicHeader buf") auto
  have f: "pointDataRecordFormat h = 3"
    unfolding hdr_format [OF hdr] by (simp add: buf_def le_word_eval)
  have otpd: "offsetToPointData h = 227"
    unfolding hdr_offsetToPointData [OF hdr] by (simp add: buf_def le_word_eval)
  have rl: "pointDataRecordLength h = 34"
    unfolding hdr_recordLength [OF hdr] by (simp add: buf_def le_word_eval)
  have np: "legacyNumOfPointRecords h = 2"
    unfolding hdr_legacyNumPoints [OF hdr] by (simp add: buf_def le_word_eval)
  have o0: "pointRecordOffset h 0 = 227" and o1: "pointRecordOffset h (Suc 0) = 261"
    by (simp_all add: pointRecordOffset_def otpd rl)
  have "\<exists>p0 p1. readPointDataRecords buf h 3 0 2 = Some ([p0, p1], [])"
    by (simp add: loop_eval o0 o1 readPointDataRecord_def readPointDataRecordFotmat0to4_def
          readBytes_bind readWord_bind len)
  then obtain p0 p1 where loop: "readPointDataRecords buf h 3 0 2 = Some ([p0, p1], [])"
    by blast
  have "read buf True
          = Some (Some \<lparr> header = h, variableLengthRecords = [], pointDataRecords = [p0, p1],
                         extendedVariableLengthRecord = [] \<rparr>, [])"
    unfolding read_def hdr by (simp add: f np loop)
  with f otpd rl show ?thesis unfolding buf_def by auto
qed

section \<open>The claims\<close>

subsection \<open>C1: the file signature\<close>

text \<open>
  Claim C1 says that a file whose first four bytes are not \<open>LASF\<close> makes \<^verbatim>\<open>read\<close>
  return null, with nothing decoded beyond the signature. The source never compares the
  signature: \<open>readPublicHeader\<close> copies the four bytes into \<open>fileSignature\<close> and goes on.
  Counterexample to C1: the file below starts with \<open>XXXX\<close>, and \<open>read\<close> returns a
  point cloud whose header carries that signature.
\<close>

theorem invalid_signature_is_accepted:
  "take 4 ([88, 88, 88, 88] @ replicate 223 0) \<noteq> [76, 65, 83, 70 :: byte]
 \<and> map_option (map_option (fileSignature \<circ> header) \<circ> fst)
       (read ([88, 88, 88, 88] @ replicate 223 0) True)
     = Some (Some [88, 88, 88, 88, 0])"
proof -
  from signature_example obtain h where
    "read ([88, 88, 88, 88] @ replicate 223 0) True
           = Some (Some \<lparr> header = h, variableLengthRecords = [], pointDataRecords = [],
                          extendedVariableLengthRecord = [] \<rparr>, [])"
    "fileSignature h = [88, 88, 88, 88, 0]" by blast
  then show ?thesis by simp
qed

text \<open>
  Claim C1 as amended: whenever \<open>read\<close> returns (null or not), the header was decoded in
  full (at least 227 bytes) with the first four bytes stored unexamined in
  \<open>fileSignature\<close>, and the result is null exactly when the point format is above 10 or,
  with \<open>pointDataOnly\<close> false, the overflow of the variable length records was reported.
  The signature is no cause of a null result.
\<close>

theorem signature_not_examined:
  assumes "read fileBytes pointDataOnly = Some (result, diags)"
  shows "\<exists>h off. readPublicHeader fileBytes = Some (h, off)
          \<and> fileSignature h = charArray (take 4 fileBytes)
          \<and> 227 \<le> off \<and> off \<le> length fileBytes
          \<and> (result = None \<longleftrightarrow>
                 10 < uint (pointDataRecordFormat h)
               \<or> (\<not> pointDataOnly \<and> VLRExceedsPointData \<in> set diags))"
proof -
  from read_SomeD [OF assms] obtain h off where hdr: "readPublicHeader fileBytes = Some (h, off)"
    by blast
  have "227 \<le> off" using hdr_end [OF hdr] by simp
  with hdr hdr_fileSignature [OF hdr] hdr_end_le [OF hdr] read_null_iff(1) [OF assms hdr]
  show ?thesis by blast
qed

text \<open>Witness for C1: the amended statement at the file with the signature \<open>XXXX\<close>.\<close>

theorem signature_not_examined_witness:
  "\<exists>h off. readPublicHeader ([88, 88, 88, 88] @ replicate 223 0) = Some (h, off)
     \<and> fileSignature h = [88, 88, 88, 88, 0]
     \<and> 227 \<le> off
     \<and> \<not> 10 < uint (pointDataRecordFormat h)"
proof -
  from signature_example obtain h0 where
    rd: "read ([88, 88, 88, 88] @ replicate 223 0) True
           = Some (Some \<lparr> header = h0, variableLengthRecords = [], pointDataRecords = [],
                          extendedVariableLengthRecord = [] \<rparr>, [])" by blast
  from signature_not_examined [OF rd] show ?thesis
    by (auto simp: charArray_def)
qed

subsection \<open>C2: variable length records that run into the point data\<close>




subsection \<open>C3: reads at the end of the buffer\<close>




subsection \<open>C4: point format 7\<close>




subsection \<open>C5: null results and placeholder records\<close>




subsection \<open>C6: version-gated header fields\<close>



subsection \<open>C7: the layout of point formats 0 to 4\<close>



subsection \<open>C10: the payload limit of a variable length record\<close>

text \<open>
  Claim C10: the length field of a variable length record is an unsigned 16-bit value, so
  the test against 65535 always succeeds: every decoded record has a payload of exactly
  \<open>recordLengthAfterHeader\<close> bytes taken from the buffer after the 54 bytes of its
  header, and the message for an oversized payload is never logged.
\<close>

theorem vlr_payload_limit_unreachable:
  assumes "readVariableLengthRecord fileBytes offset = Some (vlr, offset', log)"
  shows "unat (recordLengthAfterHeader vlr) \<le> 65535
       \<and> log = []
       \<and> recordLengthAfterHeader vlr = le_word (take 2 (drop (offset + 20) fileBytes))
       \<and> recordBytes vlr = take (unat (recordLengthAfterHeader vlr)) (drop (offset + 54) fileBytes)
       \<and> length (recordBytes vlr) = unat (recordLengthAfterHeader vlr)
       \<and> offset' = offset + 54 + unat (recordLengthAfterHeader vlr)
       \<and> offset' \<le> length fileBytes"
  using readVariableLengthRecord_SomeD [OF assms] unat_word16_le [of "recordLengthAfterHeader vlr"]
  by blast

text \<open>Witness for C10: a record with a payload of three bytes.\<close>

theorem vlr_payload_limit_unreachable_witness:
  "\<exists>vlr. readVariableLengthRecord (replicate 20 0 @ [3, 0] @ replicate 32 0 @ [10, 20, 30]) 0
            = Some (vlr, 57, [])
        \<and> recordLengthAfterHeader vlr = 3
        \<and> recordBytes vlr = [10, 20, 30]"
proof -
  define buf :: "byte list" where "buf = replicate 20 0 @ [3, 0] @ replicate 32 0 @ [10, 20, 30]"
  have len: "length buf = 57" by (simp add: buf_def)
  have l: "(le_word (take 2 (drop 20 buf)) :: 16 word) = 3"
    by (simp add: buf_def le_word_eval)
  have "\<exists>vlr. readVariableLengthRecord buf 0 = Some (vlr, 57, [])"
    by (simp add: readVariableLengthRecord_def readBytes_bind readWord_bind len l)
  then obtain vlr where r: "readVariableLengthRecord buf 0 = Some (vlr, 57, [])" ..
  from vlr_payload_limit_unreachable [OF r]
  have "recordLengthAfterHeader vlr = 3"
    and "recordBytes vlr = take (unat (recordLengthAfterHeader vlr)) (drop 54 buf)"
    by (simp_all add: l)
  then have "recordLengthAfterHeader vlr = 3" "recordBytes vlr = [10, 20, 30]"
    by (simp_all add: buf_def)
  with r show ?thesis unfolding buf_def by blast
qed

end
